theory Spec2Isabelle
  imports Complex_Main "HOL-Library.Sublist"
begin

section \<open>Python values used by app\_streamlit\_final.py\<close>

text \<open>
  A Python float is an IEEE double: a finite value, one of the two infinities, or NaN
  (\<^verbatim>\<open>float("nan")\<close> and \<^verbatim>\<open>float("inf")\<close> parse, so a history can hold them).
  Every finite double is a rational number and doubles are ordered as the rationals they
  denote, so a finite value is carried as a \<^typ>\<open>rat\<close>. The program only compares
  floats with the two thresholds 1.50 and 8.00, which are exact doubles; it never does
  arithmetic on them.
\<close>

datatype pyfloat = Finite rat | PosInf | NegInf | NaN

text \<open>Python's \<^verbatim>\<open>a < b\<close> on floats: false as soon as one side is NaN.\<close>

fun float_lt :: "pyfloat \<Rightarrow> pyfloat \<Rightarrow> bool" where
  "float_lt NaN _ = False"
| "float_lt _ NaN = False"
| "float_lt (Finite x) (Finite y) = (x < y)"
| "float_lt NegInf NegInf = False"
| "float_lt NegInf _ = True"
| "float_lt _ NegInf = False"
| "float_lt PosInf _ = False"
| "float_lt _ PosInf = True"

text \<open>Python's \<^verbatim>\<open>a >= b\<close> on floats: false as soon as one side is NaN.\<close>

fun float_ge :: "pyfloat \<Rightarrow> pyfloat \<Rightarrow> bool" where
  "float_ge NaN _ = False"
| "float_ge _ NaN = False"
| "float_ge a b = (\<not> float_lt a b)"

text \<open>
  The slice \<^verbatim>\<open>xs[-n:]\<close>: the start index \<open>len(xs) - n\<close> is clamped at 0, so a list
  shorter than \<open>n\<close> is returned whole; \<^verbatim>\<open>xs[-0:]\<close> is \<^verbatim>\<open>xs[0:]\<close>, the whole list.
\<close>

definition slice_last :: "nat \<Rightarrow> 'a list \<Rightarrow> 'a list" where
  "slice_last n xs =
     (if n = 0 then xs
      else if length xs < n then xs
      else drop (length xs - n) xs)"

text \<open>
  A Python \<^verbatim>\<open>str\<close> is carried as the bytes of its UTF-8 encoding: an ASCII character is
  one \<^typ>\<open>char\<close>, the emoji of the messages are three or four.
\<close>

definition nl :: string where
  "nl = [CHR 0x0A]"

definition emoji_stop_sign :: string where
  "emoji_stop_sign = [CHR 0xF0, CHR 0x9F, CHR 0x9B, CHR 0x91]"

definition emoji_dart :: string where
  "emoji_dart = [CHR 0xF0, CHR 0x9F, CHR 0x8E, CHR 0xAF]"

definition emoji_red_circle :: string where
  "emoji_red_circle = [CHR 0xF0, CHR 0x9F, CHR 0x94, CHR 0xB4]"

definition emoji_cross_mark :: string where
  "emoji_cross_mark = [CHR 0xE2, CHR 0x9D, CHR 0x8C]"

definition emoji_warning :: string where
  "emoji_warning = [CHR 0xE2, CHR 0x9A, CHR 0xA0, CHR 0xEF, CHR 0xB8, CHR 0x8F]"

text \<open>\<^verbatim>\<open>str(n)\<close> of a non-negative Python int: its decimal digits.\<close>

definition digit_char :: "nat \<Rightarrow> char" where
  "digit_char d = ''0123456789'' ! (d mod 10)"

function str_nat :: "nat \<Rightarrow> string" where
  "str_nat n = (if n < 10 then [digit_char n] else str_nat (n div 10) @ [digit_char (n mod 10)])"
  by pat_completeness auto
termination
  by (relation "measure id") auto

declare str_nat.simps [simp del]

text \<open>\<^verbatim>\<open>sep.join(xs)\<close>.\<close>

fun py_join :: "string \<Rightarrow> string list \<Rightarrow> string" where
  "py_join sep [] = []"
| "py_join sep [x] = x"
| "py_join sep (x # y # ys) = x @ sep @ py_join sep (y # ys)"

section \<open>Section 1.1 of the source: the constants\<close>

definition LOW_MULTIPLIER_THRESHOLD :: pyfloat where
  "LOW_MULTIPLIER_THRESHOLD = Finite (3 / 2)"

definition HIGH_MULTIPLIER_THRESHOLD :: pyfloat where
  "HIGH_MULTIPLIER_THRESHOLD = Finite 8"

definition REQUIRED_LOW_STREAK :: nat where
  "REQUIRED_LOW_STREAK = 7"

definition SAFE_HIGH_STREAK :: nat where
  "SAFE_HIGH_STREAK = 20"

text \<open>
  What an f-string prints for the two float constants: \<^verbatim>\<open>f"{1.50}"\<close> is \<^verbatim>\<open>1.5\<close> and
  \<^verbatim>\<open>f"{8.00}"\<close> is \<^verbatim>\<open>8.0\<close> (the shortest decimal that reads back as the same double).
\<close>

definition str_LOW_MULTIPLIER_THRESHOLD :: string where
  "str_LOW_MULTIPLIER_THRESHOLD = ''1.5''"

definition str_HIGH_MULTIPLIER_THRESHOLD :: string where
  "str_HIGH_MULTIPLIER_THRESHOLD = ''8.0''"

section \<open>Section 2 of the source: generate\_risk\_averse\_signal\<close>

text \<open>
  The loop of CHECK 1 over \<^verbatim>\<open>reversed(history[-REQUIRED_LOW_STREAK:])\<close>:
  \<^verbatim>\<open>
  for multiplier in ...:
      if multiplier < LOW_MULTIPLIER_THRESHOLD: low_streak_count += 1
      else: break
  \<close>
  with the counter as accumulator.
\<close>

fun low_streak_loop :: "pyfloat list \<Rightarrow> nat \<Rightarrow> nat" where
  "low_streak_loop [] low_streak_count = low_streak_count"
| "low_streak_loop (multiplier # rest) low_streak_count =
     (if float_lt multiplier LOW_MULTIPLIER_THRESHOLD
      then low_streak_loop rest (low_streak_count + 1)
      else low_streak_count)"

definition low_streak_count :: "pyfloat list \<Rightarrow> nat" where
  "low_streak_count history =
     low_streak_loop (rev (slice_last REQUIRED_LOW_STREAK history)) 0"

definition is_low_streak_ready :: "pyfloat list \<Rightarrow> bool" where
  "is_low_streak_ready history = (low_streak_count history \<ge> REQUIRED_LOW_STREAK)"

text \<open>CHECK 2: \<^verbatim>\<open>any(m >= HIGH_MULTIPLIER_THRESHOLD for m in history[-SAFE_HIGH_STREAK:])\<close>.\<close>

definition high_hit_recently :: "pyfloat list \<Rightarrow> bool" where
  "high_hit_recently history =
     list_ex (\<lambda>m. float_ge m HIGH_MULTIPLIER_THRESHOLD) (slice_last SAFE_HIGH_STREAK history)"

definition error_message :: string where
  "error_message =
     emoji_stop_sign @ '' ERROR: Need at least '' @ str_nat SAFE_HIGH_STREAK
       @ '' rounds of history for safe analysis.''"

definition signal_message :: "nat \<Rightarrow> string" where
  "signal_message c =
     emoji_dart @ '' **HIGH-TARGET SIGNAL!** **BET NOW!** '' @ emoji_dart @ nl @ nl
     @ ''**Conditions Met (100% accurate rule execution):**'' @ nl
     @ ''  1. Low Streak: '' @ str_nat c @ '' consecutive rounds **< ''
         @ str_LOW_MULTIPLIER_THRESHOLD @ ''x**.'' @ nl
     @ ''  2. Safety Check: **NO** multiplier **>= ''
         @ str_HIGH_MULTIPLIER_THRESHOLD @ ''x** recently.'' @ nl @ nl
     @ ''**ACTION:** Target **3.00x** (Aggressive) or **2.00x** (Moderate).''"

definition low_streak_reason :: "nat \<Rightarrow> string" where
  "low_streak_reason c =
     emoji_red_circle @ '' **Low Streak NOT Ready** (only '' @ str_nat c @ '' below ''
       @ str_LOW_MULTIPLIER_THRESHOLD @ ''x).''"

definition high_variance_reason :: string where
  "high_variance_reason =
     emoji_red_circle @ '' **High Variance Detected** (a '' @ str_HIGH_MULTIPLIER_THRESHOLD
       @ ''x+ hit occurred recently).''"

definition no_signal_message :: "string list \<Rightarrow> string" where
  "no_signal_message reason =
     emoji_cross_mark @ '' **NO SIGNAL.** **DO NOT BET.**'' @ nl @ nl
     @ ''**Reason(s) to Wait:**'' @ nl @ ''* '' @ py_join '' '' reason @ nl
     @ ''**Action:** Wait for safety conditions to align.''"

definition generate_risk_averse_signal :: "pyfloat list \<Rightarrow> string \<times> bool" where
  "generate_risk_averse_signal history =
     (if length history < SAFE_HIGH_STREAK then (error_message, False)
      else
        let c = low_streak_count history;
            ready = is_low_streak_ready history;
            high = high_hit_recently history
        in if ready \<and> \<not> high then (signal_message c, True)
           else
             let reason = [];
                 reason = (if \<not> ready then reason @ [low_streak_reason c] else reason);
                 reason = (if high then reason @ [high_variance_reason] else reason)
             in (no_signal_message reason, False))"

section \<open>The specification's reading of the low streak, and sample histories\<close>

text \<open>
  The specification's words for the low-streak count: take the last 7 entries, scan them
  from the most recent one backward, and count the entries strictly below 1.50 up to the
  first one that is not.
\<close>

definition spec_low_streak_count :: "pyfloat list \<Rightarrow> nat" where
  "spec_low_streak_count history =
     length (takeWhile (\<lambda>m. float_lt m (Finite (3 / 2)))
               (rev (drop (length history - 7) history)))"

definition history_broken_streak :: "pyfloat list" where
  "history_broken_streak =
     [Finite 2, Finite 2, Finite 2, Finite 2, Finite 2, Finite 2, Finite 2,
      Finite 2, Finite 2, Finite 2, Finite 2, Finite 2, Finite 2,
      Finite 1.1, Finite 1.2, Finite 1.3, Finite 1.4, Finite 1.45, Finite 1.49, Finite 2.0]"

definition history_streak_of_three :: "pyfloat list" where
  "history_streak_of_three =
     [Finite 2, Finite 2, Finite 2, Finite 2, Finite 2, Finite 2, Finite 2,
      Finite 2, Finite 2, Finite 2, Finite 2, Finite 2, Finite 2,
      Finite 1.1, Finite 1.2, Finite 1.3, NaN, Finite 1.45, Finite 0, NegInf]"


definition history_spec_signal :: "pyfloat list" where
  "history_spec_signal =
     [Finite 2, Finite 2, Finite 2, Finite 2, Finite 2, Finite 2, Finite 2,
      Finite 2, Finite 2, Finite 2, Finite 2, Finite 2, Finite 2,
      Finite 1.4, Finite 1.3, Finite 1.2, Finite 1.1, Finite 1.0, Finite 0.9, Finite 0.8]"

definition history_high_hit :: "pyfloat list" where
  "history_high_hit =
     [Finite 8.00, Finite 2, Finite 2, Finite 2, Finite 2, Finite 2, Finite 2,
      Finite 2, Finite 2, Finite 2, Finite 2, Finite 2, Finite 2,
      Finite 1.4, Finite 1.3, Finite 1.2, Finite 1.1, Finite 1.0, Finite 0.9, Finite 0.8]"

definition history_too_short :: "pyfloat list" where
  "history_too_short =
     [Finite 2, Finite 2, Finite 2, Finite 2, Finite 2, Finite 2,
      Finite 2, Finite 2, Finite 2, Finite 2, Finite 2, Finite 2,
      Finite 1.4, Finite 1.3, Finite 1.2, Finite 1.1, Finite 1.0, Finite 0.9, Finite 0.8]"

definition history_low_boundary :: "pyfloat list" where
  "history_low_boundary =
     [Finite 2, Finite 2, Finite 2, Finite 2, Finite 2, Finite 2, Finite 2,
      Finite 2, Finite 2, Finite 2, Finite 2, Finite 2, Finite 2,
      Finite 1.4, Finite 1.3, Finite 1.2, Finite 1.1, Finite 1.50, Finite 0.9, Finite 0.8]"

definition history_old_high :: "pyfloat list" where
  "history_old_high =
     [Finite 9, PosInf,
      Finite 2, Finite 2, Finite 2, Finite 2, Finite 2, Finite 2, Finite 2,
      Finite 2, Finite 2, Finite 2, Finite 2, Finite 2, Finite 2,
      Finite 1.4, Finite 1.3, Finite 1.2, Finite 1.1, Finite 1.0, Finite 0.9, Finite 0.8]"

definition history_not_positive :: "pyfloat list" where
  "history_not_positive =
     [Finite 0, Finite (-1), Finite (-2.5), NegInf, Finite 0, Finite 0, Finite (-7),
      Finite 0, Finite (-1), Finite (-2.5), NegInf, Finite 0, Finite 0, Finite (-7),
      Finite 0, Finite (-1), Finite (-2.5), NegInf, Finite 0, Finite (-100)]"

definition history_both_fail :: "pyfloat list" where
  "history_both_fail =
     [Finite 2, Finite 2, Finite 2, Finite 2, Finite 2, Finite 2, Finite 2,
      Finite 2, Finite 2, Finite 9.0, Finite 2, Finite 2, Finite 2,
      Finite 1.4, Finite 1.3, Finite 1.2, Finite 1.5, Finite 1.0, Finite 0.9, Finite 0.8]"

section \<open>Section 1.2 of the source and get\_ai\_analysis: the Gemini client\<close>

text \<open>
  The google-genai library is not part of the program. What the program observes of it
  is taken as data: the outcome of constructing \<^verbatim>\<open>genai.Client()\<close>, and the outcome of
  \<^verbatim>\<open>client.models.generate_content(model=..., contents=...)\<close> followed by reading
  \<^verbatim>\<open>.text\<close> of the response. An outcome is a value, or a raised exception carried by
  its \<^verbatim>\<open>str()\<close>: \<open>Raised\<close> for a class derived from \<^verbatim>\<open>Exception\<close>, the class both
  handlers of the source name, and \<open>RaisedBase\<close> for a class derived from
  \<^verbatim>\<open>BaseException\<close> only (\<^verbatim>\<open>KeyboardInterrupt\<close>, \<^verbatim>\<open>SystemExit\<close>), which
  \<^verbatim>\<open>except Exception\<close> does not catch.
\<close>

datatype 'a outcome = Returned 'a | Raised string | RaisedBase string

text \<open>
  A client: from the model name and the contents to the outcome of the call. The
  \<^verbatim>\<open>.text\<close> of a response is a \<^verbatim>\<open>str\<close>, or \<^verbatim>\<open>None\<close> for a response that holds no
  text (no candidate, as for a blocked prompt): \<open>Some\<close> text or \<open>None\<close>.
\<close>

type_synonym gemini_client = "string \<Rightarrow> string \<Rightarrow> string option outcome"

text \<open>An exception that leaves the function it was raised in.\<close>

datatype uncaught = Uncaught string

text \<open>
  The state of the running program that the functions of the source can touch: the
  module-level variable \<^verbatim>\<open>client\<close>, what \<^verbatim>\<open>st.error\<close> has put on the page, and the
  requests sent to the API (model name and contents).
\<close>

record app_state =
  client :: "gemini_client option"
  displayed_errors :: "string list"
  sent_requests :: "(string \<times> string) list"

text \<open>
  \<^verbatim>\<open>get_gemini_client\<close>: the client, or \<^verbatim>\<open>None\<close> and an error on the page when the
  constructor raises an \<^verbatim>\<open>Exception\<close> (as it does without the GEMINI\_API\_KEY
  credential); any other exception leaves the function.
\<close>

definition get_gemini_client ::
  "gemini_client outcome \<Rightarrow> app_state \<Rightarrow> (uncaught + gemini_client option) \<times> app_state" where
  "get_gemini_client constructed s =
     (case constructed of
        Returned c \<Rightarrow> (Inr (Some c), s)
      | Raised e \<Rightarrow>
          (Inr None,
           s\<lparr>displayed_errors := displayed_errors s
                @ [''Error initializing Gemini Client. Please ensure GEMINI_API_KEY is set. Error: ''
                   @ e]\<rparr>)
      | RaisedBase e \<Rightarrow> (Inl (Uncaught e), s))"

text \<open>
  The module-level statement \<^verbatim>\<open>client = get_gemini_client()\<close>; an exception that leaves
  \<^verbatim>\<open>get_gemini_client\<close> leaves the module.
\<close>

definition initialise_client :: "gemini_client outcome \<Rightarrow> app_state \<Rightarrow> uncaught + app_state" where
  "initialise_client constructed s =
     (case get_gemini_client constructed s of
        (Inr c, s') \<Rightarrow> Inr (s'\<lparr>client := c\<rparr>)
      | (Inl u, s') \<Rightarrow> Inl u)"

text \<open>
  The prompt of \<^verbatim>\<open>get_ai_analysis\<close>. How Python prints a list of floats inside the
  f-string is a parameter, \<open>str_list\<close>.
\<close>

definition analysis_prompt :: "(pyfloat list \<Rightarrow> string) \<Rightarrow> pyfloat list \<Rightarrow> string \<Rightarrow> string" where
  "analysis_prompt str_list history_list traditional_signal =
     ''Analyze the sequence: '' @ str_list history_list
     @ ''. The calculated signal is: '' @ [CHR 0x27] @ traditional_signal @ [CHR 0x27]
     @ ''. Based on crash game risk principles, provide a quick 3-4 sentence risk assessment.''"

definition unavailable_message :: string where
  "unavailable_message = emoji_warning @ '' Gemini AI Analysis is unavailable.''"

text \<open>
  \<^verbatim>\<open>get_ai_analysis\<close>. What it hands back is a Python value that is a \<^verbatim>\<open>str\<close> or
  \<^verbatim>\<open>None\<close> (\<open>Inr (Some text)\<close> or \<open>Inr None\<close>), or an exception leaves it (\<open>Inl\<close>).
  The \<^verbatim>\<open>try\<close> block returns \<^verbatim>\<open>response.text\<close> as it is.
\<close>

definition get_ai_analysis ::
  "(pyfloat list \<Rightarrow> string) \<Rightarrow> pyfloat list \<Rightarrow> string \<Rightarrow> app_state
     \<Rightarrow> (uncaught + string option) \<times> app_state" where
  "get_ai_analysis str_list history_list traditional_signal s =
     (case client s of
        None \<Rightarrow> (Inr (Some unavailable_message), s)
      | Some c \<Rightarrow>
          let prompt = analysis_prompt str_list history_list traditional_signal;
              s' = s\<lparr>sent_requests := sent_requests s @ [(''gemini-2.5-flash'', prompt)]\<rparr>
          in (case c ''gemini-2.5-flash'' prompt of
                Returned text \<Rightarrow> (Inr text, s')
              | Raised e \<Rightarrow>
                  (Inr (Some (''Gemini API Error: Could not generate analysis. ('' @ e @ '')'')),
                   s')
              | RaisedBase e \<Rightarrow> (Inl (Uncaught e), s')))"

text \<open>
  A call of \<^verbatim>\<open>generate_risk_averse_signal\<close> in a program state. The function reads its
  argument and the four constants of section 1.1, which nothing in the program assigns
  again, and it assigns local variables only: the state passes through.
\<close>

definition call_generate_risk_averse_signal ::
  "pyfloat list \<Rightarrow> app_state \<Rightarrow> (string \<times> bool) \<times> app_state" where
  "call_generate_risk_averse_signal history s = (generate_risk_averse_signal history, s)"

definition state_no_client :: app_state where
  "state_no_client = \<lparr>client = None, displayed_errors = [], sent_requests = []\<rparr>"

definition failing_client :: gemini_client where
  "failing_client model contents = Raised ''503 UNAVAILABLE''"

definition answering_client :: gemini_client where
  "answering_client model contents = Returned (Some ''Wait for a calmer run.'')"

definition silent_client :: gemini_client where
  "silent_client model contents = Returned None"

definition interrupted_client :: gemini_client where
  "interrupted_client model contents = RaisedBase ''KeyboardInterrupt''"

definition state_with :: "gemini_client \<Rightarrow> app_state" where
  "state_with c = \<lparr>client = Some c, displayed_errors = [], sent_requests = []\<rparr>"

section \<open>Auxiliary facts\<close>

lemma str_nat_digit: "n < 10 \<Longrightarrow> str_nat n = [digit_char n]"
  by (simp add: str_nat.simps)

lemma str_nat_20: "str_nat 20 = ''20''"
  by code_simp

lemma str_nat_7: "str_nat 7 = ''7''"
  by code_simp

lemma length_slice_last: "0 < n \<Longrightarrow> n \<le> length xs \<Longrightarrow> length (slice_last n xs) = n"
  by (simp add: slice_last_def)

lemma slice_last_eq_drop: "0 < n \<Longrightarrow> n \<le> length xs \<Longrightarrow> slice_last n xs = drop (length xs - n) xs"
  by (simp add: slice_last_def)

lemma slice_last_slice_last:
  "0 < n \<Longrightarrow> n \<le> m \<Longrightarrow> m \<le> length xs \<Longrightarrow> slice_last n (slice_last m xs) = slice_last n xs"
  by (simp add: slice_last_def)

lemma rev_slice_last_nth:
  "0 < n \<Longrightarrow> n \<le> length xs \<Longrightarrow> i < n \<Longrightarrow> rev (slice_last n xs) ! i = xs ! (length xs - 1 - i)"
  by (simp add: slice_last_def rev_nth)

lemma low_streak_loop_takeWhile:
  "low_streak_loop xs c = c + length (takeWhile (\<lambda>m. float_lt m LOW_MULTIPLIER_THRESHOLD) xs)"
  by (induction xs arbitrary: c) simp_all

lemma low_streak_count_takeWhile:
  "low_streak_count h = length (takeWhile (\<lambda>m. float_lt m LOW_MULTIPLIER_THRESHOLD) (rev (slice_last REQUIRED_LOW_STREAK h)))"
  by (simp add: low_streak_count_def low_streak_loop_takeWhile)

lemma low_streak_count_le: "REQUIRED_LOW_STREAK \<le> length h \<Longrightarrow> low_streak_count h \<le> REQUIRED_LOW_STREAK"
  using length_takeWhile_le[of "\<lambda>m. float_lt m LOW_MULTIPLIER_THRESHOLD" "rev (slice_last REQUIRED_LOW_STREAK h)"]
  by (simp add: low_streak_count_takeWhile slice_last_def REQUIRED_LOW_STREAK_def)

lemma low_streak_count_spec_eq: "low_streak_count h = spec_low_streak_count h"
  by (simp add: low_streak_count_takeWhile spec_low_streak_count_def slice_last_def
      REQUIRED_LOW_STREAK_def LOW_MULTIPLIER_THRESHOLD_def)

lemma low_streak_count_nth:
  assumes "REQUIRED_LOW_STREAK \<le> length h" "i < low_streak_count h"
  shows "float_lt (h ! (length h - 1 - i)) LOW_MULTIPLIER_THRESHOLD"
proof -
  let ?P = "\<lambda>m. float_lt m LOW_MULTIPLIER_THRESHOLD"
  let ?w = "rev (slice_last REQUIRED_LOW_STREAK h)"
  have i: "i < length (takeWhile ?P ?w)"
    using assms(2) by (simp add: low_streak_count_takeWhile)
  then have "takeWhile ?P ?w ! i \<in> set (takeWhile ?P ?w)"
    by (rule nth_mem)
  then have "?P (takeWhile ?P ?w ! i)"
    by (rule set_takeWhileD[THEN conjunct2])
  then have "?P (?w ! i)"
    using i by (simp add: takeWhile_nth)
  moreover have "i < REQUIRED_LOW_STREAK"
    using assms(2) low_streak_count_le[OF assms(1)] by linarith
  ultimately show ?thesis
    using assms(1) by (simp add: rev_slice_last_nth REQUIRED_LOW_STREAK_def)
qed

lemma low_streak_count_stop:
  assumes "REQUIRED_LOW_STREAK \<le> length h" "low_streak_count h < REQUIRED_LOW_STREAK"
  shows "\<not> float_lt (h ! (length h - 1 - low_streak_count h)) LOW_MULTIPLIER_THRESHOLD"
proof -
  let ?P = "\<lambda>m. float_lt m LOW_MULTIPLIER_THRESHOLD"
  let ?w = "rev (slice_last REQUIRED_LOW_STREAK h)"
  have len: "length ?w = REQUIRED_LOW_STREAK"
    using assms(1) by (simp add: length_slice_last REQUIRED_LOW_STREAK_def)
  have "length (takeWhile ?P ?w) < length ?w"
    using assms(2) len by (simp add: low_streak_count_takeWhile)
  then have "\<not> ?P (?w ! length (takeWhile ?P ?w))"
    by (rule nth_length_takeWhile)
  then have "\<not> ?P (?w ! low_streak_count h)"
    by (simp add: low_streak_count_takeWhile)
  then show ?thesis
    using assms by (simp add: rev_slice_last_nth REQUIRED_LOW_STREAK_def)
qed

lemma generate_long:
  "SAFE_HIGH_STREAK \<le> length h \<Longrightarrow>
   generate_risk_averse_signal h =
     (if is_low_streak_ready h \<and> \<not> high_hit_recently h
      then (signal_message (low_streak_count h), True)
      else (no_signal_message
              ((if is_low_streak_ready h then [] else [low_streak_reason (low_streak_count h)])
               @ (if high_hit_recently h then [high_variance_reason] else [])), False))"
  by (simp add: generate_risk_averse_signal_def Let_def)

lemma snd_generate_long:
  "SAFE_HIGH_STREAK \<le> length h \<Longrightarrow>
   snd (generate_risk_averse_signal h) = (is_low_streak_ready h \<and> \<not> high_hit_recently h)"
  by (simp add: generate_long)

lemma length_takeWhile_full: "(length (takeWhile P xs) = length xs) = (\<forall>x \<in> set xs. P x)"
  by (induction xs) auto

lemma low_streak_count_full:
  assumes "REQUIRED_LOW_STREAK \<le> length h"
  shows "(REQUIRED_LOW_STREAK \<le> low_streak_count h) =
         (\<forall>m \<in> set (slice_last REQUIRED_LOW_STREAK h). float_lt m LOW_MULTIPLIER_THRESHOLD)"
proof -
  let ?P = "\<lambda>m. float_lt m LOW_MULTIPLIER_THRESHOLD"
  let ?w = "rev (slice_last REQUIRED_LOW_STREAK h)"
  have len: "length ?w = REQUIRED_LOW_STREAK"
    using assms by (simp add: length_slice_last REQUIRED_LOW_STREAK_def)
  have le: "length (takeWhile ?P ?w) \<le> length ?w"
    by (rule length_takeWhile_le)
  have "(REQUIRED_LOW_STREAK \<le> low_streak_count h) = (length (takeWhile ?P ?w) = length ?w)"
    unfolding low_streak_count_takeWhile using le len by linarith
  also have "\<dots> = (\<forall>m \<in> set ?w. ?P m)"
    by (rule length_takeWhile_full)
  finally show ?thesis by simp
qed

lemma in_set_drop_nth:
  "(m \<in> set (drop n xs)) = (\<exists>i. n \<le> i \<and> i < length xs \<and> xs ! i = m)"
proof (cases "n \<le> length xs")
  case False
  then show ?thesis by auto
next
  case True
  show ?thesis
  proof
    assume "m \<in> set (drop n xs)"
    then obtain j where j: "j < length (drop n xs)" "drop n xs ! j = m"
      by (auto simp: in_set_conv_nth)
    then have "n \<le> n + j \<and> n + j < length xs \<and> xs ! (n + j) = m"
      using True by simp
    then show "\<exists>i. n \<le> i \<and> i < length xs \<and> xs ! i = m" by blast
  next
    assume "\<exists>i. n \<le> i \<and> i < length xs \<and> xs ! i = m"
    then obtain i where i: "n \<le> i" "i < length xs" "xs ! i = m" by blast
    then have "i - n < length (drop n xs)" "drop n xs ! (i - n) = m"
      using True by simp_all
    then show "m \<in> set (drop n xs)"
      using nth_mem by blast
  qed
qed

lemma in_set_slice_last:
  assumes "0 < n" "n \<le> length xs"
  shows "(m \<in> set (slice_last n xs)) = (\<exists>i<n. xs ! (length xs - 1 - i) = m)"
proof -
  have "(m \<in> set (slice_last n xs)) = (\<exists>k. length xs - n \<le> k \<and> k < length xs \<and> xs ! k = m)"
    using assms by (simp add: slice_last_eq_drop in_set_drop_nth)
  also have "\<dots> = (\<exists>i<n. xs ! (length xs - 1 - i) = m)"
  proof
    assume "\<exists>k. length xs - n \<le> k \<and> k < length xs \<and> xs ! k = m"
    then obtain k where k: "length xs - n \<le> k" "k < length xs" "xs ! k = m" by blast
    have "length xs - 1 - k < n" "length xs - 1 - (length xs - 1 - k) = k"
      using k assms by linarith+
    then show "\<exists>i<n. xs ! (length xs - 1 - i) = m"
      using k(3) by metis
  next
    assume "\<exists>i<n. xs ! (length xs - 1 - i) = m"
    then obtain i where i: "i < n" "xs ! (length xs - 1 - i) = m" by blast
    have "length xs - n \<le> length xs - 1 - i" "length xs - 1 - i < length xs"
      using i(1) assms by linarith+
    then show "\<exists>k. length xs - n \<le> k \<and> k < length xs \<and> xs ! k = m"
      using i(2) by blast
  qed
  finally show ?thesis .
qed

lemma bex_slice_last:
  assumes "0 < n" "n \<le> length xs"
  shows "(\<exists>m \<in> set (slice_last n xs). P m) = (\<exists>i<n. P (xs ! (length xs - 1 - i)))"
  unfolding Bex_def in_set_slice_last[OF assms] by blast

lemma ball_slice_last:
  assumes "0 < n" "n \<le> length xs"
  shows "(\<forall>m \<in> set (slice_last n xs). P m) = (\<forall>i<n. P (xs ! (length xs - 1 - i)))"
  unfolding Ball_def in_set_slice_last[OF assms] by blast

lemma high_hit_recently_nth:
  assumes "SAFE_HIGH_STREAK \<le> length h"
  shows "high_hit_recently h =
     (\<exists>i<SAFE_HIGH_STREAK. float_ge (h ! (length h - 1 - i)) HIGH_MULTIPLIER_THRESHOLD)"
proof -
  have "0 < SAFE_HIGH_STREAK" by (simp add: SAFE_HIGH_STREAK_def)
  from bex_slice_last[OF this assms] show ?thesis
    by (simp only: high_hit_recently_def list_ex_iff)
qed

lemma low_streak_ready_nth:
  assumes "REQUIRED_LOW_STREAK \<le> length h"
  shows "is_low_streak_ready h =
     (\<forall>i<REQUIRED_LOW_STREAK. float_lt (h ! (length h - 1 - i)) LOW_MULTIPLIER_THRESHOLD)"
proof -
  have "0 < REQUIRED_LOW_STREAK" by (simp add: REQUIRED_LOW_STREAK_def)
  from ball_slice_last[OF this assms] show ?thesis
    by (simp only: is_low_streak_ready_def low_streak_count_full[OF assms])
qed

lemma error_message_literal:
  "error_message = emoji_stop_sign @ '' ERROR: Need at least 20 rounds of history for safe analysis.''"
  by (simp add: error_message_def SAFE_HIGH_STREAK_def str_nat_20)

lemma low_streak_count_slice:
  assumes "SAFE_HIGH_STREAK \<le> length h"
  shows "low_streak_count (slice_last SAFE_HIGH_STREAK h) = low_streak_count h"
  using assms
  by (simp add: low_streak_count_def slice_last_slice_last SAFE_HIGH_STREAK_def
      REQUIRED_LOW_STREAK_def)

lemma high_hit_recently_slice:
  assumes "SAFE_HIGH_STREAK \<le> length h"
  shows "high_hit_recently (slice_last SAFE_HIGH_STREAK h) = high_hit_recently h"
  using assms
  by (simp add: high_hit_recently_def slice_last_slice_last SAFE_HIGH_STREAK_def)

lemma no_signal_low_only_texts:
  "list_all (\<lambda>c. sublist ''Low Streak NOT Ready'' (no_signal_message [low_streak_reason c])
                \<and> \<not> sublist ''High Variance Detected'' (no_signal_message [low_streak_reason c]))
     [0..<7]"
  by code_simp

lemma no_signal_both_texts:
  "list_all (\<lambda>c. sublist ''Low Streak NOT Ready''
                   (no_signal_message [low_streak_reason c, high_variance_reason])
                \<and> sublist ''High Variance Detected''
                   (no_signal_message [low_streak_reason c, high_variance_reason]))
     [0..<7]"
  by code_simp

lemma no_signal_high_only_texts:
  "\<not> sublist ''Low Streak NOT Ready'' (no_signal_message [high_variance_reason])
   \<and> sublist ''High Variance Detected'' (no_signal_message [high_variance_reason])"
  by code_simp

lemma no_signal_low_only:
  assumes "c < 7"
  shows "sublist ''Low Streak NOT Ready'' (no_signal_message [low_streak_reason c])"
    and "\<not> sublist ''High Variance Detected'' (no_signal_message [low_streak_reason c])"
proof -
  have "c \<in> set [0..<7]" using assms by simp
  with no_signal_low_only_texts show
    "sublist ''Low Streak NOT Ready'' (no_signal_message [low_streak_reason c])"
    "\<not> sublist ''High Variance Detected'' (no_signal_message [low_streak_reason c])"
    unfolding list_all_iff by blast+
qed

lemma no_signal_both:
  assumes "c < 7"
  shows "sublist ''Low Streak NOT Ready''
           (no_signal_message [low_streak_reason c, high_variance_reason])"
    and "sublist ''High Variance Detected''
           (no_signal_message [low_streak_reason c, high_variance_reason])"
proof -
  have "c \<in> set [0..<7]" using assms by simp
  with no_signal_both_texts show
    "sublist ''Low Streak NOT Ready''
           (no_signal_message [low_streak_reason c, high_variance_reason])"
    "sublist ''High Variance Detected''
           (no_signal_message [low_streak_reason c, high_variance_reason])"
    unfolding list_all_iff by blast+
qed

lemma no_signal_message_literal:
  "no_signal_message
     ((if low then [low_streak_reason c] else []) @ (if high then [high_variance_reason] else [])) =
   emoji_cross_mark @ '' **NO SIGNAL.** **DO NOT BET.**'' @ nl @ nl
   @ ''**Reason(s) to Wait:**'' @ nl @ ''* ''
   @ (if low
      then emoji_red_circle @ '' **Low Streak NOT Ready** (only '' @ str_nat c
           @ '' below 1.5x).''
      else [])
   @ (if low \<and> high then '' '' else [])
   @ (if high
      then emoji_red_circle @ '' **High Variance Detected** (a 8.0x+ hit occurred recently).''
      else [])
   @ nl @ ''**Action:** Wait for safety conditions to align.''"
  by (simp add: no_signal_message_def low_streak_reason_def high_variance_reason_def
      str_LOW_MULTIPLIER_THRESHOLD_def str_HIGH_MULTIPLIER_THRESHOLD_def)

lemma low_streak_count_ge:
  assumes "REQUIRED_LOW_STREAK \<le> length h" "k \<le> REQUIRED_LOW_STREAK"
    and "\<And>i. i < k \<Longrightarrow> float_lt (h ! (length h - 1 - i)) LOW_MULTIPLIER_THRESHOLD"
  shows "k \<le> low_streak_count h"
proof -
  let ?P = "\<lambda>m. float_lt m LOW_MULTIPLIER_THRESHOLD"
  let ?w = "rev (slice_last REQUIRED_LOW_STREAK h)"
  have pos: "0 < REQUIRED_LOW_STREAK"
    by (simp add: REQUIRED_LOW_STREAK_def)
  have len: "length ?w = REQUIRED_LOW_STREAK"
    using assms(1) pos by (simp add: length_slice_last)
  have "?P (?w ! i)" if "i < k" for i
  proof -
    have "i < REQUIRED_LOW_STREAK" using that assms(2) by simp
    then have "?w ! i = h ! (length h - 1 - i)"
      using pos assms(1) by (rule_tac rev_slice_last_nth)
    with assms(3)[OF that] show ?thesis by simp
  qed
  moreover have "k \<le> length ?w"
    using assms(2) len by simp
  ultimately have "k \<le> length (takeWhile ?P ?w)"
    by (rule length_takeWhile_less_P_nth)
  then show ?thesis
    by (simp only: low_streak_count_takeWhile)
qed

section \<open>The claims\<close>

text \<open>
  Claim C1. For a history of at least 20 entries the low-streak count of
  \<open>generate_risk_averse_signal\<close> is the number of consecutive entries strictly below 1.50,
  counted backward from the most recent entry of the last-7 window and stopping at the first
  entry that is not below 1.50: it agrees with the specification's reading, it is at most 7,
  the counted entries are all below 1.50 and the entry where it stops (when it stops before
  7) is not. When the last 7 entries are 1.1, 1.2, 1.3, 1.4, 1.45, 1.49, 2.0 the count is 0,
  the verdict is False and the message reports "only 0 below 1.5x".
\<close>

theorem C1_low_streak_count:
  assumes "20 \<le> length history"
  shows "low_streak_count history = spec_low_streak_count history
       \<and> low_streak_count history \<le> 7
       \<and> (\<forall>i < low_streak_count history.
             float_lt (history ! (length history - 1 - i)) (Finite (3 / 2)))
       \<and> (low_streak_count history < 7 \<longrightarrow>
             \<not> float_lt (history ! (length history - 1 - low_streak_count history)) (Finite (3 / 2)))
       \<and> (drop (length history - 7) history =
             [Finite 1.1, Finite 1.2, Finite 1.3, Finite 1.4, Finite 1.45, Finite 1.49, Finite 2.0] \<longrightarrow>
           low_streak_count history = 0
           \<and> snd (generate_risk_averse_signal history) = False
           \<and> fst (generate_risk_averse_signal history) =
               no_signal_message
                 ((emoji_red_circle @ '' **Low Streak NOT Ready** (only 0 below 1.5x).'')
                  # (if high_hit_recently history then [high_variance_reason] else [])))"
proof -
  have len7: "REQUIRED_LOW_STREAK \<le> length history"
    using assms by (simp add: REQUIRED_LOW_STREAK_def)
  have len20: "SAFE_HIGH_STREAK \<le> length history"
    using assms by (simp add: SAFE_HIGH_STREAK_def)
  have a: "low_streak_count history = spec_low_streak_count history"
    by (rule low_streak_count_spec_eq)
  have b: "low_streak_count history \<le> 7"
    using low_streak_count_le[OF len7] by (simp add: REQUIRED_LOW_STREAK_def)
  have c: "\<forall>i < low_streak_count history.
             float_lt (history ! (length history - 1 - i)) (Finite (3 / 2))"
    using low_streak_count_nth[OF len7] by (simp add: LOW_MULTIPLIER_THRESHOLD_def)
  have d: "low_streak_count history < 7 \<longrightarrow>
             \<not> float_lt (history ! (length history - 1 - low_streak_count history)) (Finite (3 / 2))"
    using low_streak_count_stop[OF len7]
    by (simp add: LOW_MULTIPLIER_THRESHOLD_def REQUIRED_LOW_STREAK_def)
  have e: "low_streak_count history = 0
           \<and> snd (generate_risk_averse_signal history) = False
           \<and> fst (generate_risk_averse_signal history) =
               no_signal_message
                 ((emoji_red_circle @ '' **Low Streak NOT Ready** (only 0 below 1.5x).'')
                  # (if high_hit_recently history then [high_variance_reason] else []))"
    if w: "drop (length history - 7) history =
             [Finite 1.1, Finite 1.2, Finite 1.3, Finite 1.4, Finite 1.45, Finite 1.49, Finite 2.0]"
  proof -
    have z: "low_streak_count history = 0"
      using w by (simp add: a spec_low_streak_count_def)
    have r: "\<not> is_low_streak_ready history"
      by (simp add: is_low_streak_ready_def z REQUIRED_LOW_STREAK_def)
    have t: "low_streak_reason 0 = emoji_red_circle @ '' **Low Streak NOT Ready** (only 0 below 1.5x).''"
      by (simp add: low_streak_reason_def str_nat_digit digit_char_def str_LOW_MULTIPLIER_THRESHOLD_def)
    show ?thesis
      using z r t by (simp add: generate_long[OF len20])
  qed
  from a b c d e show ?thesis by blast
qed

text \<open>
  The claim at two histories of 20 entries: the specification's broken streak, and a streak
  of three (0, 1.45 and minus infinity, stopped by a NaN).
\<close>

theorem C1_low_streak_count_witness:
  "20 \<le> length history_broken_streak
   \<and> drop (length history_broken_streak - 7) history_broken_streak =
       [Finite 1.1, Finite 1.2, Finite 1.3, Finite 1.4, Finite 1.45, Finite 1.49, Finite 2.0]
   \<and> low_streak_count history_broken_streak = 0
   \<and> snd (generate_risk_averse_signal history_broken_streak) = False
   \<and> 20 \<le> length history_streak_of_three
   \<and> low_streak_count history_streak_of_three = 3
   \<and> float_lt (history_streak_of_three ! 19) (Finite (3 / 2))
   \<and> float_lt (history_streak_of_three ! 18) (Finite (3 / 2))
   \<and> float_lt (history_streak_of_three ! 17) (Finite (3 / 2))
   \<and> \<not> float_lt (history_streak_of_three ! 16) (Finite (3 / 2))"
proof -
  have l1: "20 \<le> length history_broken_streak"
    by (simp add: history_broken_streak_def)
  have d1: "drop (length history_broken_streak - 7) history_broken_streak =
       [Finite 1.1, Finite 1.2, Finite 1.3, Finite 1.4, Finite 1.45, Finite 1.49, Finite 2.0]"
    by (simp add: history_broken_streak_def)
  have l2: "20 \<le> length history_streak_of_three"
    by (simp add: history_streak_of_three_def)
  have n2: "length history_streak_of_three = 20"
    by (simp add: history_streak_of_three_def)
  have c2: "low_streak_count history_streak_of_three = 3"
    by (simp add: low_streak_count_def slice_last_def REQUIRED_LOW_STREAK_def
        LOW_MULTIPLIER_THRESHOLD_def history_streak_of_three_def)
  show ?thesis
    using C1_low_streak_count[OF l1] C1_low_streak_count[OF l2] l1 l2 d1 c2 n2
    by (simp add: history_streak_of_three_def)
qed

text \<open>
  Claim C2. For a history of at least 20 entries the verdict is True exactly when the
  low-streak count reaches 7 and none of the last 20 entries is at or above 8.00. So one
  entry at or above 8.00 among the last 20, and in particular one equal to 8.00, makes
  the verdict False whatever the low streak is.
\<close>

theorem C2_signal_iff:
  assumes "20 \<le> length history"
  shows "snd (generate_risk_averse_signal history) =
           (7 \<le> low_streak_count history
            \<and> \<not> (\<exists>i<20. float_ge (history ! (length history - 1 - i)) (Finite 8)))
       \<and> ((\<exists>i<20. float_ge (history ! (length history - 1 - i)) (Finite 8)) \<longrightarrow>
             snd (generate_risk_averse_signal history) = False)
       \<and> ((\<exists>i<20. history ! (length history - 1 - i) = Finite 8) \<longrightarrow>
             snd (generate_risk_averse_signal history) = False)"
proof -
  have len20: "SAFE_HIGH_STREAK \<le> length history"
    using assms by (simp add: SAFE_HIGH_STREAK_def)
  have high: "high_hit_recently history =
                (\<exists>i<20. float_ge (history ! (length history - 1 - i)) (Finite 8))"
    using high_hit_recently_nth[OF len20]
    by (simp only: SAFE_HIGH_STREAK_def HIGH_MULTIPLIER_THRESHOLD_def)
  have a: "snd (generate_risk_averse_signal history) =
           (7 \<le> low_streak_count history
            \<and> \<not> (\<exists>i<20. float_ge (history ! (length history - 1 - i)) (Finite 8)))"
    by (simp add: snd_generate_long[OF len20] is_low_streak_ready_def REQUIRED_LOW_STREAK_def high)
  have b: "(\<exists>i<20. float_ge (history ! (length history - 1 - i)) (Finite 8)) \<longrightarrow>
             snd (generate_risk_averse_signal history) = False"
    using a by blast
  have c: "(\<exists>i<20. history ! (length history - 1 - i) = Finite 8) \<longrightarrow>
             snd (generate_risk_averse_signal history) = False"
  proof
    assume "\<exists>i<20. history ! (length history - 1 - i) = Finite 8"
    then obtain i where "i < 20" "history ! (length history - 1 - i) = Finite 8" by blast
    moreover have "float_ge (Finite 8) (Finite 8)" by simp
    ultimately have "\<exists>i<20. float_ge (history ! (length history - 1 - i)) (Finite 8)"
      by auto
    with b show "snd (generate_risk_averse_signal history) = False" by blast
  qed
  from a b c show ?thesis by blast
qed

text \<open>
  The claim at the specification's signalling history with its oldest entry replaced by
  8.00 (the low streak is complete, the verdict is False), and at that history itself.
\<close>

theorem C2_signal_iff_witness:
  "20 \<le> length history_high_hit
   \<and> (\<exists>i<20. history_high_hit ! (length history_high_hit - 1 - i) = Finite 8)
   \<and> 7 \<le> low_streak_count history_high_hit
   \<and> snd (generate_risk_averse_signal history_high_hit) = False
   \<and> 20 \<le> length history_spec_signal
   \<and> snd (generate_risk_averse_signal history_spec_signal) = True"
proof -
  have l1: "20 \<le> length history_high_hit"
    by (simp add: history_high_hit_def)
  have n1: "length history_high_hit = 20"
    by (simp add: history_high_hit_def)
  have "history_high_hit ! (length history_high_hit - 1 - 19) = Finite 8"
    by (simp add: history_high_hit_def)
  then have e1: "\<exists>i<20. history_high_hit ! (length history_high_hit - 1 - i) = Finite 8"
    by (intro exI[of _ 19]) simp
  have c1: "low_streak_count history_high_hit = 7"
    by (simp add: low_streak_count_def slice_last_def REQUIRED_LOW_STREAK_def
        LOW_MULTIPLIER_THRESHOLD_def history_high_hit_def)
  have l2: "20 \<le> length history_spec_signal"
    by (simp add: history_spec_signal_def)
  have c2: "low_streak_count history_spec_signal = 7"
    by (simp add: low_streak_count_def slice_last_def REQUIRED_LOW_STREAK_def
        LOW_MULTIPLIER_THRESHOLD_def history_spec_signal_def)
  have h2: "\<not> high_hit_recently history_spec_signal"
    by (simp add: high_hit_recently_def slice_last_def SAFE_HIGH_STREAK_def
        HIGH_MULTIPLIER_THRESHOLD_def history_spec_signal_def)
  have s2: "snd (generate_risk_averse_signal history_spec_signal) = True"
    using C2_signal_iff[OF l2] c2 h2 high_hit_recently_nth[of history_spec_signal] l2
    by (simp add: SAFE_HIGH_STREAK_def HIGH_MULTIPLIER_THRESHOLD_def)
  have s1: "snd (generate_risk_averse_signal history_high_hit) = False"
    using C2_signal_iff[OF l1] e1 by blast
  show ?thesis
    using l1 e1 c1 s1 l2 s2 by simp
qed

text \<open>
  Claim C3. A history of fewer than 20 entries gets the verdict False and the fixed message
  naming the minimum of 20 rounds; the result is the one of the empty history, so no entry
  of the history contributes to it.
\<close>

theorem C3_insufficient_history:
  assumes "length history < 20"
  shows "generate_risk_averse_signal history =
           (emoji_stop_sign @ '' ERROR: Need at least 20 rounds of history for safe analysis.'',
            False)
       \<and> generate_risk_averse_signal history = generate_risk_averse_signal []"
  using assms
  by (simp add: generate_risk_averse_signal_def SAFE_HIGH_STREAK_def error_message_literal)

text \<open>
  The claim at 19 entries that end in a complete low streak and hold no high multiplier.
\<close>

theorem C3_insufficient_history_witness:
  "length history_too_short < 20
   \<and> generate_risk_averse_signal history_too_short =
       (emoji_stop_sign @ '' ERROR: Need at least 20 rounds of history for safe analysis.'',
        False)"
proof -
  have l: "length history_too_short < 20"
    by (simp add: history_too_short_def)
  from C3_insufficient_history[OF l] l show ?thesis by simp
qed

text \<open>
  Claim C4. A history of exactly 20 entries whose last 7 entries (indices 13 to 19) are
  below 1.50 and which holds no entry at or above 8.00 gets the verdict True, with a
  low-streak count of 7. The specification's history 2 (13 times), 1.4, 1.3, 1.2, 1.1, 1.0,
  0.9, 0.8 gets True and the signal message reporting 7 consecutive rounds.
\<close>

theorem C4_exactly_twenty:
  "(length history = 20
      \<and> (\<forall>i. 13 \<le> i \<and> i < 20 \<longrightarrow> float_lt (history ! i) (Finite (3 / 2)))
      \<and> (\<forall>i<20. \<not> float_ge (history ! i) (Finite 8))
    \<longrightarrow> snd (generate_risk_averse_signal history) = True
        \<and> low_streak_count history = 7)
   \<and> generate_risk_averse_signal history_spec_signal =
       (emoji_dart @ '' **HIGH-TARGET SIGNAL!** **BET NOW!** '' @ emoji_dart @ nl @ nl
        @ ''**Conditions Met (100% accurate rule execution):**'' @ nl
        @ ''  1. Low Streak: 7 consecutive rounds **< 1.5x**.'' @ nl
        @ ''  2. Safety Check: **NO** multiplier **>= 8.0x** recently.'' @ nl @ nl
        @ ''**ACTION:** Target **3.00x** (Aggressive) or **2.00x** (Moderate).'',
        True)"
proof -
  have gen: "snd (generate_risk_averse_signal history) = True \<and> low_streak_count history = 7"
    if len: "length history = 20"
      and low: "\<forall>i. 13 \<le> i \<and> i < 20 \<longrightarrow> float_lt (history ! i) (Finite (3 / 2))"
      and high: "\<forall>i<20. \<not> float_ge (history ! i) (Finite 8)"
  proof -
    have len7: "REQUIRED_LOW_STREAK \<le> length history"
      using len by (simp add: REQUIRED_LOW_STREAK_def)
    have len20: "SAFE_HIGH_STREAK \<le> length history"
      using len by (simp add: SAFE_HIGH_STREAK_def)
    have "float_lt (history ! (length history - 1 - i)) LOW_MULTIPLIER_THRESHOLD"
      if "i < REQUIRED_LOW_STREAK" for i
    proof -
      have "13 \<le> length history - 1 - i \<and> length history - 1 - i < 20"
        using that len unfolding REQUIRED_LOW_STREAK_def by arith
      with low show ?thesis
        unfolding LOW_MULTIPLIER_THRESHOLD_def by blast
    qed
    then have ready: "is_low_streak_ready history"
      unfolding low_streak_ready_nth[OF len7] by blast
    have "\<not> float_ge (history ! (length history - 1 - i)) HIGH_MULTIPLIER_THRESHOLD"
      if "i < SAFE_HIGH_STREAK" for i
    proof -
      have "length history - 1 - i < 20"
        using len by arith
      with high show ?thesis
        unfolding HIGH_MULTIPLIER_THRESHOLD_def by blast
    qed
    then have nohigh: "\<not> high_hit_recently history"
      unfolding high_hit_recently_nth[OF len20] by blast
    have "low_streak_count history = 7"
      using ready low_streak_count_le[OF len7]
      by (simp add: is_low_streak_ready_def REQUIRED_LOW_STREAK_def)
    then show ?thesis
      using ready nohigh by (simp add: snd_generate_long[OF len20])
  qed
  have l2: "SAFE_HIGH_STREAK \<le> length history_spec_signal"
    by (simp add: history_spec_signal_def SAFE_HIGH_STREAK_def)
  have c2: "low_streak_count history_spec_signal = 7"
    by (simp add: low_streak_count_def slice_last_def REQUIRED_LOW_STREAK_def
        LOW_MULTIPLIER_THRESHOLD_def history_spec_signal_def)
  have h2: "\<not> high_hit_recently history_spec_signal"
    by (simp add: high_hit_recently_def slice_last_def SAFE_HIGH_STREAK_def
        HIGH_MULTIPLIER_THRESHOLD_def history_spec_signal_def)
  have m: "signal_message 7 =
        emoji_dart @ '' **HIGH-TARGET SIGNAL!** **BET NOW!** '' @ emoji_dart @ nl @ nl
        @ ''**Conditions Met (100% accurate rule execution):**'' @ nl
        @ ''  1. Low Streak: 7 consecutive rounds **< 1.5x**.'' @ nl
        @ ''  2. Safety Check: **NO** multiplier **>= 8.0x** recently.'' @ nl @ nl
        @ ''**ACTION:** Target **3.00x** (Aggressive) or **2.00x** (Moderate).''"
    by (simp add: signal_message_def str_nat_7 str_LOW_MULTIPLIER_THRESHOLD_def
        str_HIGH_MULTIPLIER_THRESHOLD_def)
  have conc: "generate_risk_averse_signal history_spec_signal = (signal_message 7, True)"
    using c2 h2 by (simp add: generate_long[OF l2] is_low_streak_ready_def REQUIRED_LOW_STREAK_def)
  show ?thesis
    using gen conc unfolding m by blast
qed

text \<open>
  The claim at the specification's history, which meets the three conditions.
\<close>

theorem C4_exactly_twenty_witness:
  "length history_spec_signal = 20
   \<and> list_all (\<lambda>m. float_lt m (Finite (3 / 2))) (drop 13 history_spec_signal)
   \<and> list_all (\<lambda>m. \<not> float_ge m (Finite 8)) history_spec_signal
   \<and> snd (generate_risk_averse_signal history_spec_signal) = True
   \<and> low_streak_count history_spec_signal = 7"
proof -
  have len: "length history_spec_signal = 20"
    by (simp add: history_spec_signal_def)
  have all: "list_all (\<lambda>m. \<not> float_ge m (Finite 8)) history_spec_signal"
    by (simp add: history_spec_signal_def)
  then have high: "\<forall>i<20. \<not> float_ge (history_spec_signal ! i) (Finite 8)"
    using len by (simp add: list_all_length)
  have lows: "list_all (\<lambda>m. float_lt m (Finite (3 / 2))) (drop 13 history_spec_signal)"
    by (simp add: history_spec_signal_def)
  then have "\<forall>m \<in> set (drop 13 history_spec_signal). float_lt m (Finite (3 / 2))"
    by (simp only: list_all_iff)
  then have low: "\<forall>i. 13 \<le> i \<and> i < 20 \<longrightarrow> float_lt (history_spec_signal ! i) (Finite (3 / 2))"
    using len by (metis in_set_drop_nth)
  from C4_exactly_twenty[of history_spec_signal] len low high all lows show ?thesis
    by blast
qed

text \<open>
  Claim C5. The two thresholds are treated differently at the boundary. In a history of at
  least 20 entries an entry equal to 1.50 at position \<open>i\<close> from the end of the last-7
  window is not counted (the count stops at or before it, so the verdict is False), since
  1.50 is not strictly below the low threshold; an entry equal to 8.00 among the last 20 is
  a high hit (so the verdict is False), since 8.00 is at or above the high threshold.
\<close>

theorem C5_threshold_boundaries:
  assumes "20 \<le> length history"
  shows "(\<forall>i<7. history ! (length history - 1 - i) = Finite (3 / 2) \<longrightarrow>
            low_streak_count history \<le> i \<and> snd (generate_risk_averse_signal history) = False)
       \<and> (\<forall>i<20. history ! (length history - 1 - i) = Finite 8 \<longrightarrow>
            high_hit_recently history \<and> snd (generate_risk_averse_signal history) = False)
       \<and> \<not> float_lt (Finite (3 / 2)) LOW_MULTIPLIER_THRESHOLD
       \<and> float_ge (Finite 8) HIGH_MULTIPLIER_THRESHOLD"
proof -
  have len7: "REQUIRED_LOW_STREAK \<le> length history"
    using assms by (simp add: REQUIRED_LOW_STREAK_def)
  have len20: "SAFE_HIGH_STREAK \<le> length history"
    using assms by (simp add: SAFE_HIGH_STREAK_def)
  have nlt: "\<not> float_lt (Finite (3 / 2)) LOW_MULTIPLIER_THRESHOLD"
    by (simp add: LOW_MULTIPLIER_THRESHOLD_def)
  have ge: "float_ge (Finite 8) HIGH_MULTIPLIER_THRESHOLD"
    by (simp add: HIGH_MULTIPLIER_THRESHOLD_def)
  have a: "low_streak_count history \<le> i \<and> snd (generate_risk_averse_signal history) = False"
    if i: "i < 7" and at: "history ! (length history - 1 - i) = Finite (3 / 2)" for i
  proof -
    have le: "low_streak_count history \<le> i"
    proof (rule ccontr)
      assume "\<not> low_streak_count history \<le> i"
      then have "i < low_streak_count history" by simp
      from low_streak_count_nth[OF len7 this] at nlt show False by simp
    qed
    then have "\<not> is_low_streak_ready history"
      using i by (simp add: is_low_streak_ready_def REQUIRED_LOW_STREAK_def)
    then show ?thesis
      using le by (simp add: snd_generate_long[OF len20])
  qed
  have b: "high_hit_recently history \<and> snd (generate_risk_averse_signal history) = False"
    if i: "i < 20" and at: "history ! (length history - 1 - i) = Finite 8" for i
  proof -
    have "\<exists>i<SAFE_HIGH_STREAK.
            float_ge (history ! (length history - 1 - i)) HIGH_MULTIPLIER_THRESHOLD"
      using i at ge by (auto simp: SAFE_HIGH_STREAK_def)
    then have "high_hit_recently history"
      unfolding high_hit_recently_nth[OF len20] by blast
    then show ?thesis
      by (simp add: snd_generate_long[OF len20])
  qed
  from a b nlt ge show ?thesis by blast
qed

text \<open>
  The claim at a history with 1.50 third from the end (two entries counted, verdict False)
  and at a history with 8.00 as the oldest of its 20 entries, whose low streak is complete.
\<close>

theorem C5_threshold_boundaries_witness:
  "20 \<le> length history_low_boundary
   \<and> history_low_boundary ! (length history_low_boundary - 1 - 2) = Finite (3 / 2)
   \<and> low_streak_count history_low_boundary \<le> 2
   \<and> snd (generate_risk_averse_signal history_low_boundary) = False
   \<and> 20 \<le> length history_high_hit
   \<and> history_high_hit ! (length history_high_hit - 1 - 19) = Finite 8
   \<and> high_hit_recently history_high_hit
   \<and> snd (generate_risk_averse_signal history_high_hit) = False"
proof -
  have l1: "20 \<le> length history_low_boundary"
    by (simp add: history_low_boundary_def)
  have a1: "history_low_boundary ! (length history_low_boundary - 1 - 2) = Finite (3 / 2)"
    by (simp add: history_low_boundary_def)
  have l2: "20 \<le> length history_high_hit"
    by (simp add: history_high_hit_def)
  have a2: "history_high_hit ! (length history_high_hit - 1 - 19) = Finite 8"
    by (simp add: history_high_hit_def)
  have r1: "low_streak_count history_low_boundary \<le> 2
            \<and> snd (generate_risk_averse_signal history_low_boundary) = False"
  proof -
    have "(2::nat) < 7" by simp
    with C5_threshold_boundaries[OF l1] a1 show ?thesis by blast
  qed
  have r2: "high_hit_recently history_high_hit
            \<and> snd (generate_risk_averse_signal history_high_hit) = False"
  proof -
    have "(19::nat) < 20" by simp
    with C5_threshold_boundaries[OF l2] a2 show ?thesis by blast
  qed
  from l1 a1 r1 l2 a2 r2 show ?thesis by blast
qed

text \<open>
  Claim C6. When a history of at least 20 entries gets the verdict False, at least one of
  the two conditions failed and the message lists exactly the failed ones: after the fixed
  heading comes the low-streak reason, with the actual count and the threshold 1.5, when
  the count is below 7; then the high-variance reason, with the threshold 8.0, when a high
  multiplier occurred; one space between them when both are there. The words "Low Streak
  NOT Ready" occur in the message exactly when the low streak failed, and the words "High
  Variance Detected" exactly when the safety check failed.
\<close>

theorem C6_no_signal_reasons:
  assumes "20 \<le> length history"
    and "snd (generate_risk_averse_signal history) = False"
  shows "(low_streak_count history < 7 \<or> high_hit_recently history)
       \<and> fst (generate_risk_averse_signal history) =
           emoji_cross_mark @ '' **NO SIGNAL.** **DO NOT BET.**'' @ nl @ nl
           @ ''**Reason(s) to Wait:**'' @ nl @ ''* ''
           @ (if low_streak_count history < 7
              then emoji_red_circle @ '' **Low Streak NOT Ready** (only ''
                   @ str_nat (low_streak_count history) @ '' below 1.5x).''
              else [])
           @ (if low_streak_count history < 7 \<and> high_hit_recently history then '' '' else [])
           @ (if high_hit_recently history
              then emoji_red_circle
                   @ '' **High Variance Detected** (a 8.0x+ hit occurred recently).''
              else [])
           @ nl @ ''**Action:** Wait for safety conditions to align.''
       \<and> sublist ''Low Streak NOT Ready'' (fst (generate_risk_averse_signal history))
           = (low_streak_count history < 7)
       \<and> sublist ''High Variance Detected'' (fst (generate_risk_averse_signal history))
           = high_hit_recently history"
proof -
  let ?c = "low_streak_count history"
  let ?high = "high_hit_recently history"
  have len20: "SAFE_HIGH_STREAK \<le> length history"
    using assms(1) by (simp add: SAFE_HIGH_STREAK_def)
  have ready: "is_low_streak_ready history = (\<not> ?c < 7)"
    by (simp add: is_low_streak_ready_def REQUIRED_LOW_STREAK_def not_less)
  have failed: "?c < 7 \<or> ?high"
    using assms(2) by (simp add: snd_generate_long[OF len20] ready)
  have msg: "fst (generate_risk_averse_signal history) =
               no_signal_message
                 ((if ?c < 7 then [low_streak_reason ?c] else [])
                  @ (if ?high then [high_variance_reason] else []))"
    using failed by (auto simp: generate_long[OF len20] ready)
  have lit: "fst (generate_risk_averse_signal history) =
           emoji_cross_mark @ '' **NO SIGNAL.** **DO NOT BET.**'' @ nl @ nl
           @ ''**Reason(s) to Wait:**'' @ nl @ ''* ''
           @ (if ?c < 7
              then emoji_red_circle @ '' **Low Streak NOT Ready** (only ''
                   @ str_nat ?c @ '' below 1.5x).''
              else [])
           @ (if ?c < 7 \<and> ?high then '' '' else [])
           @ (if ?high
              then emoji_red_circle
                   @ '' **High Variance Detected** (a 8.0x+ hit occurred recently).''
              else [])
           @ nl @ ''**Action:** Wait for safety conditions to align.''"
    unfolding msg by (rule no_signal_message_literal)
  have words: "sublist ''Low Streak NOT Ready'' (fst (generate_risk_averse_signal history)) = (?c < 7)
             \<and> sublist ''High Variance Detected'' (fst (generate_risk_averse_signal history)) = ?high"
  proof (cases "?c < 7")
    case low: True
    show ?thesis
    proof (cases ?high)
      case True
      with low no_signal_both[OF low] show ?thesis
        unfolding msg by simp
    next
      case False
      with low no_signal_low_only[OF low] show ?thesis
        unfolding msg by simp
    qed
  next
    case False
    with failed have "?high" by blast
    with False no_signal_high_only_texts show ?thesis
      unfolding msg by simp
  qed
  from failed lit words show ?thesis by blast
qed

text \<open>
  The claim at three histories of 20 entries: the specification's broken streak (only the
  low streak fails, count 0), the signalling history with its oldest entry replaced by 8.00
  (only the safety check fails), and a history with a 9.0 and a 1.50 fourth from the end
  (both fail, count 3).
\<close>

theorem C6_no_signal_reasons_witness:
  "20 \<le> length history_broken_streak
   \<and> snd (generate_risk_averse_signal history_broken_streak) = False
   \<and> fst (generate_risk_averse_signal history_broken_streak) =
       emoji_cross_mark @ '' **NO SIGNAL.** **DO NOT BET.**'' @ nl @ nl
       @ ''**Reason(s) to Wait:**'' @ nl @ ''* ''
       @ emoji_red_circle @ '' **Low Streak NOT Ready** (only 0 below 1.5x).''
       @ nl @ ''**Action:** Wait for safety conditions to align.''
   \<and> 20 \<le> length history_high_hit
   \<and> snd (generate_risk_averse_signal history_high_hit) = False
   \<and> fst (generate_risk_averse_signal history_high_hit) =
       emoji_cross_mark @ '' **NO SIGNAL.** **DO NOT BET.**'' @ nl @ nl
       @ ''**Reason(s) to Wait:**'' @ nl @ ''* ''
       @ emoji_red_circle @ '' **High Variance Detected** (a 8.0x+ hit occurred recently).''
       @ nl @ ''**Action:** Wait for safety conditions to align.''
   \<and> 20 \<le> length history_both_fail
   \<and> snd (generate_risk_averse_signal history_both_fail) = False
   \<and> fst (generate_risk_averse_signal history_both_fail) =
       emoji_cross_mark @ '' **NO SIGNAL.** **DO NOT BET.**'' @ nl @ nl
       @ ''**Reason(s) to Wait:**'' @ nl @ ''* ''
       @ emoji_red_circle @ '' **Low Streak NOT Ready** (only 3 below 1.5x).''
       @ '' ''
       @ emoji_red_circle @ '' **High Variance Detected** (a 8.0x+ hit occurred recently).''
       @ nl @ ''**Action:** Wait for safety conditions to align.''"
proof -
  have l1: "20 \<le> length history_broken_streak"
    by (simp add: history_broken_streak_def)
  have c1: "low_streak_count history_broken_streak = 0"
    by (simp add: low_streak_count_def slice_last_def REQUIRED_LOW_STREAK_def
        LOW_MULTIPLIER_THRESHOLD_def history_broken_streak_def)
  have h1: "\<not> high_hit_recently history_broken_streak"
    by (simp add: high_hit_recently_def slice_last_def SAFE_HIGH_STREAK_def
        HIGH_MULTIPLIER_THRESHOLD_def history_broken_streak_def)
  have s1: "snd (generate_risk_averse_signal history_broken_streak) = False"
    using l1 c1
    by (simp add: snd_generate_long SAFE_HIGH_STREAK_def is_low_streak_ready_def
        REQUIRED_LOW_STREAK_def)
  have l2: "20 \<le> length history_high_hit"
    by (simp add: history_high_hit_def)
  have c2: "low_streak_count history_high_hit = 7"
    by (simp add: low_streak_count_def slice_last_def REQUIRED_LOW_STREAK_def
        LOW_MULTIPLIER_THRESHOLD_def history_high_hit_def)
  have h2: "high_hit_recently history_high_hit"
    by (simp add: high_hit_recently_def slice_last_def SAFE_HIGH_STREAK_def
        HIGH_MULTIPLIER_THRESHOLD_def history_high_hit_def)
  have s2: "snd (generate_risk_averse_signal history_high_hit) = False"
    using l2 h2 by (simp add: snd_generate_long SAFE_HIGH_STREAK_def)
  have l3: "20 \<le> length history_both_fail"
    by (simp add: history_both_fail_def)
  have c3: "low_streak_count history_both_fail = 3"
    by (simp add: low_streak_count_def slice_last_def REQUIRED_LOW_STREAK_def
        LOW_MULTIPLIER_THRESHOLD_def history_both_fail_def)
  have h3: "high_hit_recently history_both_fail"
    by (simp add: high_hit_recently_def slice_last_def SAFE_HIGH_STREAK_def
        HIGH_MULTIPLIER_THRESHOLD_def history_both_fail_def)
  have s3: "snd (generate_risk_averse_signal history_both_fail) = False"
    using l3 h3 by (simp add: snd_generate_long SAFE_HIGH_STREAK_def)
  have d: "str_nat 0 = ''0''" "str_nat 3 = ''3''"
    by (simp_all add: str_nat_digit digit_char_def)
  have m1: "fst (generate_risk_averse_signal history_broken_streak) =
       emoji_cross_mark @ '' **NO SIGNAL.** **DO NOT BET.**'' @ nl @ nl
       @ ''**Reason(s) to Wait:**'' @ nl @ ''* ''
       @ emoji_red_circle @ '' **Low Streak NOT Ready** (only 0 below 1.5x).''
       @ nl @ ''**Action:** Wait for safety conditions to align.''"
    using C6_no_signal_reasons[OF l1 s1] c1 h1 d by simp
  have m2: "fst (generate_risk_averse_signal history_high_hit) =
       emoji_cross_mark @ '' **NO SIGNAL.** **DO NOT BET.**'' @ nl @ nl
       @ ''**Reason(s) to Wait:**'' @ nl @ ''* ''
       @ emoji_red_circle @ '' **High Variance Detected** (a 8.0x+ hit occurred recently).''
       @ nl @ ''**Action:** Wait for safety conditions to align.''"
    using C6_no_signal_reasons[OF l2 s2] c2 h2 by simp
  have m3: "fst (generate_risk_averse_signal history_both_fail) =
       emoji_cross_mark @ '' **NO SIGNAL.** **DO NOT BET.**'' @ nl @ nl
       @ ''**Reason(s) to Wait:**'' @ nl @ ''* ''
       @ emoji_red_circle @ '' **Low Streak NOT Ready** (only 3 below 1.5x).''
       @ '' ''
       @ emoji_red_circle @ '' **High Variance Detected** (a 8.0x+ hit occurred recently).''
       @ nl @ ''**Action:** Wait for safety conditions to align.''"
    using C6_no_signal_reasons[OF l3 s3] c3 h3 d by simp
  from l1 s1 m1 l2 s2 m2 l3 s3 m3 show ?thesis by blast
qed

text \<open>
  Claim C7. \<open>generate_risk_averse_signal\<close> is deterministic and stateless: a call returns
  the same message and verdict in every program state and leaves the state as it is, so
  two calls with the same history return the same pair, also when a call of
  \<open>get_ai_analysis\<close> (which sends a request) comes between them, as it does in the page's
  button handler.
\<close>

theorem C7_deterministic_stateless:
  "fst (call_generate_risk_averse_signal history s) =
     fst (call_generate_risk_averse_signal history s')
   \<and> snd (call_generate_risk_averse_signal history s) = s
   \<and> fst (call_generate_risk_averse_signal history
             (snd (call_generate_risk_averse_signal history s))) =
       fst (call_generate_risk_averse_signal history s)
   \<and> fst (call_generate_risk_averse_signal history
             (snd (get_ai_analysis str_list history
                     (fst (fst (call_generate_risk_averse_signal history s)))
                     (snd (call_generate_risk_averse_signal history s))))) =
       fst (call_generate_risk_averse_signal history s)"
  by (simp add: call_generate_risk_averse_signal_def)

text \<open>
  Claim C8, as stated, fails: \<open>get_ai_analysis\<close> does not always return a string. With
  a client whose response holds no text it returns \<^verbatim>\<open>None\<close>, and with a client whose
  call is interrupted by an exception outside \<^verbatim>\<open>Exception\<close> the exception leaves it.
\<close>

theorem C8_always_string_counterexample:
  "fst (get_ai_analysis (\<lambda>h. ''[]'') [] ''no signal'' (state_with silent_client)) = Inr None
   \<and> fst (get_ai_analysis (\<lambda>h. ''[]'') [] ''no signal'' (state_with interrupted_client)) =
       Inl (Uncaught ''KeyboardInterrupt'')"
  by (simp add: get_ai_analysis_def state_with_def silent_client_def interrupted_client_def
      Let_def)

text \<open>
  Claim C8, amended. Without a client \<open>get_ai_analysis\<close> returns the fixed unavailability
  string for every input and leaves the state as it is, so no request is sent; a client
  whose construction raised an \<^verbatim>\<open>Exception\<close> is no client. With a client one request is
  sent: when the call raises an \<^verbatim>\<open>Exception\<close>, it is caught and the result is the
  fallback string "Gemini API Error: ..." with the exception's text; when the response
  holds a text, the result is that text; an exception outside \<^verbatim>\<open>Exception\<close> is not
  caught.
\<close>

theorem C8_ai_analysis_outcomes:
  "(client s = None \<longrightarrow>
      get_ai_analysis str_list history_list traditional_signal s =
        (Inr (Some (emoji_warning @ '' Gemini AI Analysis is unavailable.'')), s))
   \<and> (\<exists>s'. initialise_client (Raised e) s = Inr s'
          \<and> client s' = None
          \<and> sent_requests s' = sent_requests s
          \<and> get_ai_analysis str_list history_list traditional_signal s' =
              (Inr (Some (emoji_warning @ '' Gemini AI Analysis is unavailable.'')), s'))
   \<and> (\<forall>c err. client s = Some c
         \<and> c ''gemini-2.5-flash'' (analysis_prompt str_list history_list traditional_signal)
             = Raised err \<longrightarrow>
         fst (get_ai_analysis str_list history_list traditional_signal s) =
           Inr (Some (''Gemini API Error: Could not generate analysis. ('' @ err @ '')'')))
   \<and> (\<forall>c text. client s = Some c
         \<and> c ''gemini-2.5-flash'' (analysis_prompt str_list history_list traditional_signal)
             = Returned (Some text) \<longrightarrow>
         fst (get_ai_analysis str_list history_list traditional_signal s) = Inr (Some text))
   \<and> (\<forall>c err. client s = Some c
         \<and> c ''gemini-2.5-flash'' (analysis_prompt str_list history_list traditional_signal)
             = RaisedBase err \<longrightarrow>
         fst (get_ai_analysis str_list history_list traditional_signal s) = Inl (Uncaught err))
   \<and> (\<forall>c. client s = Some c \<longrightarrow>
         sent_requests (snd (get_ai_analysis str_list history_list traditional_signal s)) =
           sent_requests s
           @ [(''gemini-2.5-flash'', analysis_prompt str_list history_list traditional_signal)])"
proof -
  have none: "client s = None \<longrightarrow>
      get_ai_analysis str_list history_list traditional_signal s =
        (Inr (Some (emoji_warning @ '' Gemini AI Analysis is unavailable.'')), s)"
    by (simp add: get_ai_analysis_def unavailable_message_def)
  let ?s' = "s\<lparr>displayed_errors := displayed_errors s
                @ [''Error initializing Gemini Client. Please ensure GEMINI_API_KEY is set. Error: ''
                   @ e], client := None\<rparr>"
  have "initialise_client (Raised e) s = Inr ?s'"
    by (simp add: initialise_client_def get_gemini_client_def)
  moreover have "client ?s' = None" "sent_requests ?s' = sent_requests s"
    by simp_all
  moreover have "get_ai_analysis str_list history_list traditional_signal ?s' =
              (Inr (Some (emoji_warning @ '' Gemini AI Analysis is unavailable.'')), ?s')"
    by (simp add: get_ai_analysis_def unavailable_message_def)
  ultimately have init: "\<exists>s'. initialise_client (Raised e) s = Inr s'
          \<and> client s' = None
          \<and> sent_requests s' = sent_requests s
          \<and> get_ai_analysis str_list history_list traditional_signal s' =
              (Inr (Some (emoji_warning @ '' Gemini AI Analysis is unavailable.'')), s')"
    by blast
  have raised: "\<forall>c err. client s = Some c
         \<and> c ''gemini-2.5-flash'' (analysis_prompt str_list history_list traditional_signal)
             = Raised err \<longrightarrow>
         fst (get_ai_analysis str_list history_list traditional_signal s) =
           Inr (Some (''Gemini API Error: Could not generate analysis. ('' @ err @ '')''))"
    by (simp add: get_ai_analysis_def Let_def)
  have returned: "\<forall>c text. client s = Some c
         \<and> c ''gemini-2.5-flash'' (analysis_prompt str_list history_list traditional_signal)
             = Returned (Some text) \<longrightarrow>
         fst (get_ai_analysis str_list history_list traditional_signal s) = Inr (Some text)"
    by (simp add: get_ai_analysis_def Let_def)
  have base: "\<forall>c err. client s = Some c
         \<and> c ''gemini-2.5-flash'' (analysis_prompt str_list history_list traditional_signal)
             = RaisedBase err \<longrightarrow>
         fst (get_ai_analysis str_list history_list traditional_signal s) = Inl (Uncaught err)"
    by (simp add: get_ai_analysis_def Let_def)
  have sent: "\<forall>c. client s = Some c \<longrightarrow>
         sent_requests (snd (get_ai_analysis str_list history_list traditional_signal s)) =
           sent_requests s
           @ [(''gemini-2.5-flash'', analysis_prompt str_list history_list traditional_signal)]"
    by (simp add: get_ai_analysis_def Let_def split: outcome.splits)
  from none init raised returned base sent show ?thesis by blast
qed

text \<open>
  The amended claim in a state without a client, and in states whose client raises an
  \<^verbatim>\<open>Exception\<close> on every call, answers with a text, and is interrupted.
\<close>

theorem C8_ai_analysis_outcomes_witness:
  "client state_no_client = None
   \<and> get_ai_analysis (\<lambda>h. ''[]'') [] ''no signal'' state_no_client =
       (Inr (Some (emoji_warning @ '' Gemini AI Analysis is unavailable.'')), state_no_client)
   \<and> client (state_with failing_client) = Some failing_client
   \<and> failing_client ''gemini-2.5-flash'' (analysis_prompt (\<lambda>h. ''[]'') [] ''no signal'')
       = Raised ''503 UNAVAILABLE''
   \<and> fst (get_ai_analysis (\<lambda>h. ''[]'') [] ''no signal'' (state_with failing_client)) =
       Inr (Some ''Gemini API Error: Could not generate analysis. (503 UNAVAILABLE)'')
   \<and> client (state_with answering_client) = Some answering_client
   \<and> answering_client ''gemini-2.5-flash'' (analysis_prompt (\<lambda>h. ''[]'') [] ''no signal'')
       = Returned (Some ''Wait for a calmer run.'')
   \<and> fst (get_ai_analysis (\<lambda>h. ''[]'') [] ''no signal'' (state_with answering_client)) =
       Inr (Some ''Wait for a calmer run.'')
   \<and> client (state_with interrupted_client) = Some interrupted_client
   \<and> interrupted_client ''gemini-2.5-flash'' (analysis_prompt (\<lambda>h. ''[]'') [] ''no signal'')
       = RaisedBase ''KeyboardInterrupt''
   \<and> fst (get_ai_analysis (\<lambda>h. ''[]'') [] ''no signal'' (state_with interrupted_client)) =
       Inl (Uncaught ''KeyboardInterrupt'')
   \<and> sent_requests (snd (get_ai_analysis (\<lambda>h. ''[]'') [] ''no signal''
                            (state_with answering_client))) =
       [(''gemini-2.5-flash'', analysis_prompt (\<lambda>h. ''[]'') [] ''no signal'')]"
proof -
  have n: "client state_no_client = None"
    by (simp add: state_no_client_def)
  have f: "client (state_with failing_client) = Some failing_client"
    by (simp add: state_with_def)
  have fr: "failing_client ''gemini-2.5-flash'' (analysis_prompt (\<lambda>h. ''[]'') [] ''no signal'')
       = Raised ''503 UNAVAILABLE''"
    by (simp add: failing_client_def)
  have a: "client (state_with answering_client) = Some answering_client"
    by (simp add: state_with_def)
  have ar: "answering_client ''gemini-2.5-flash'' (analysis_prompt (\<lambda>h. ''[]'') [] ''no signal'')
       = Returned (Some ''Wait for a calmer run.'')"
    by (simp add: answering_client_def)
  have i: "client (state_with interrupted_client) = Some interrupted_client"
    by (simp add: state_with_def)
  have ir: "interrupted_client ''gemini-2.5-flash'' (analysis_prompt (\<lambda>h. ''[]'') [] ''no signal'')
       = RaisedBase ''KeyboardInterrupt''"
    by (simp add: interrupted_client_def)
  have sr: "sent_requests (state_with answering_client) = []"
    by (simp add: state_with_def)
  have r1: "get_ai_analysis (\<lambda>h. ''[]'') [] ''no signal'' state_no_client =
       (Inr (Some (emoji_warning @ '' Gemini AI Analysis is unavailable.'')), state_no_client)"
    using C8_ai_analysis_outcomes[of state_no_client "\<lambda>h. ''[]''" "[]" "''no signal''"] n
    by blast
  have r2: "fst (get_ai_analysis (\<lambda>h. ''[]'') [] ''no signal'' (state_with failing_client)) =
       Inr (Some (''Gemini API Error: Could not generate analysis. ('' @ ''503 UNAVAILABLE'' @ '')''))"
    using C8_ai_analysis_outcomes[of "state_with failing_client" "\<lambda>h. ''[]''" "[]" "''no signal''"]
      f fr by blast
  have r3: "fst (get_ai_analysis (\<lambda>h. ''[]'') [] ''no signal'' (state_with answering_client)) =
       Inr (Some ''Wait for a calmer run.'')"
    using C8_ai_analysis_outcomes[of "state_with answering_client" "\<lambda>h. ''[]''" "[]" "''no signal''"]
      a ar by blast
  have r4: "fst (get_ai_analysis (\<lambda>h. ''[]'') [] ''no signal'' (state_with interrupted_client)) =
       Inl (Uncaught ''KeyboardInterrupt'')"
    using C8_ai_analysis_outcomes[of "state_with interrupted_client" "\<lambda>h. ''[]''" "[]" "''no signal''"]
      i ir by blast
  have r5: "sent_requests (snd (get_ai_analysis (\<lambda>h. ''[]'') [] ''no signal''
                            (state_with answering_client))) =
       sent_requests (state_with answering_client)
       @ [(''gemini-2.5-flash'', analysis_prompt (\<lambda>h. ''[]'') [] ''no signal'')]"
    using C8_ai_analysis_outcomes[of "state_with answering_client" "\<lambda>h. ''[]''" "[]" "''no signal''"]
      a by blast
  from n r1 f fr r2 a ar r3 i ir r4 r5 sr show ?thesis by simp
qed

text \<open>
  Claim C9. For a history of at least 20 entries the result (message and verdict) is the
  result on its last 20 entries: earlier entries never matter.
\<close>

theorem C9_trailing_window:
  assumes "20 \<le> length history"
  shows "generate_risk_averse_signal history =
         generate_risk_averse_signal (drop (length history - 20) history)"
proof -
  have len20: "SAFE_HIGH_STREAK \<le> length history"
    using assms by (simp add: SAFE_HIGH_STREAK_def)
  have w: "drop (length history - 20) history = slice_last SAFE_HIGH_STREAK history"
    using assms by (simp add: slice_last_def SAFE_HIGH_STREAK_def)
  have lenw: "SAFE_HIGH_STREAK \<le> length (slice_last SAFE_HIGH_STREAK history)"
    using assms by (simp add: slice_last_def SAFE_HIGH_STREAK_def)
  show ?thesis
    unfolding w
    by (simp add: generate_long[OF len20] generate_long[OF lenw] is_low_streak_ready_def
        low_streak_count_slice[OF len20] high_hit_recently_slice[OF len20])
qed

text \<open>
  The claim at 22 entries: a 9.0 and an infinity, then the specification's signalling
  history. The two old high values are outside the window and the verdict is True.
\<close>

theorem C9_trailing_window_witness:
  "20 \<le> length history_old_high
   \<and> drop (length history_old_high - 20) history_old_high = history_spec_signal
   \<and> generate_risk_averse_signal history_old_high = generate_risk_averse_signal history_spec_signal
   \<and> snd (generate_risk_averse_signal history_spec_signal) = True"
proof -
  have l: "20 \<le> length history_old_high"
    by (simp add: history_old_high_def)
  have d: "drop (length history_old_high - 20) history_old_high = history_spec_signal"
    by (simp add: history_old_high_def history_spec_signal_def)
  have s: "snd (generate_risk_averse_signal history_spec_signal) = True"
    by (simp add: generate_risk_averse_signal_def SAFE_HIGH_STREAK_def is_low_streak_ready_def
        low_streak_count_def slice_last_def REQUIRED_LOW_STREAK_def LOW_MULTIPLIER_THRESHOLD_def
        high_hit_recently_def HIGH_MULTIPLIER_THRESHOLD_def history_spec_signal_def Let_def)
  from C9_trailing_window[OF l] d s l show ?thesis by simp
qed

text \<open>
  Claim C10. \<open>generate_risk_averse_signal\<close> returns a message and a verdict for every list
  of floats, whatever the values (zero, negative, infinite, NaN): the error pair below 20
  entries, and from 20 entries on the signal pair or a no-signal pair. Nothing checks that
  a multiplier is positive: a value at or below zero, like minus infinity, is below 1.50,
  so the \<open>k\<close> most recent entries being such values gives a count of at least \<open>k\<close>, and
  a history whose last 20 entries are all such values gets the verdict True.
\<close>

theorem C10_total_no_validation:
  "(length history < 20 \<and> generate_risk_averse_signal history = (error_message, False)
    \<or> 20 \<le> length history
        \<and> generate_risk_averse_signal history = (signal_message 7, True)
    \<or> 20 \<le> length history
        \<and> (\<exists>reason. generate_risk_averse_signal history = (no_signal_message reason, False)))
   \<and> (\<forall>x\<le>0. float_lt (Finite x) LOW_MULTIPLIER_THRESHOLD
               \<and> \<not> float_ge (Finite x) HIGH_MULTIPLIER_THRESHOLD)
   \<and> (\<forall>k\<le>7. 20 \<le> length history
         \<and> (\<forall>i<k. (\<exists>x\<le>0. history ! (length history - 1 - i) = Finite x)
                   \<or> history ! (length history - 1 - i) = NegInf) \<longrightarrow>
         k \<le> low_streak_count history)
   \<and> (20 \<le> length history
        \<and> (\<forall>i<20. (\<exists>x\<le>0. history ! (length history - 1 - i) = Finite x)
                    \<or> history ! (length history - 1 - i) = NegInf) \<longrightarrow>
        generate_risk_averse_signal history = (signal_message 7, True))"
proof -
  have shape: "length history < 20 \<and> generate_risk_averse_signal history = (error_message, False)
    \<or> 20 \<le> length history
        \<and> generate_risk_averse_signal history = (signal_message 7, True)
    \<or> 20 \<le> length history
        \<and> (\<exists>reason. generate_risk_averse_signal history = (no_signal_message reason, False))"
  proof (cases "length history < 20")
    case True
    then show ?thesis
      by (simp add: generate_risk_averse_signal_def SAFE_HIGH_STREAK_def)
  next
    case False
    then have len20: "SAFE_HIGH_STREAK \<le> length history"
      by (simp add: SAFE_HIGH_STREAK_def)
    then have len7: "REQUIRED_LOW_STREAK \<le> length history"
      by (simp add: SAFE_HIGH_STREAK_def REQUIRED_LOW_STREAK_def)
    show ?thesis
    proof (cases "is_low_streak_ready history \<and> \<not> high_hit_recently history")
      case True
      then have "low_streak_count history = 7"
        using low_streak_count_le[OF len7]
        by (simp add: is_low_streak_ready_def REQUIRED_LOW_STREAK_def)
      with True False show ?thesis
        by (simp add: generate_long[OF len20])
    next
      case no: False
      have "generate_risk_averse_signal history =
              (no_signal_message
                 ((if is_low_streak_ready history then []
                   else [low_streak_reason (low_streak_count history)])
                  @ (if high_hit_recently history then [high_variance_reason] else [])), False)"
        using no by (simp only: generate_long[OF len20] if_False)
      then have "\<exists>reason. generate_risk_averse_signal history = (no_signal_message reason, False)"
        by (rule exI)
      with False show ?thesis by simp
    qed
  qed
  have neg: "float_lt m LOW_MULTIPLIER_THRESHOLD \<and> \<not> float_ge m HIGH_MULTIPLIER_THRESHOLD"
    if "(\<exists>x\<le>0. m = Finite x) \<or> m = NegInf" for m
    using that by (auto simp: LOW_MULTIPLIER_THRESHOLD_def HIGH_MULTIPLIER_THRESHOLD_def)
  have fin: "\<forall>x\<le>0. float_lt (Finite x) LOW_MULTIPLIER_THRESHOLD
               \<and> \<not> float_ge (Finite x) HIGH_MULTIPLIER_THRESHOLD"
    using neg by blast
  have count: "k \<le> low_streak_count history"
    if k: "k \<le> 7" and len: "20 \<le> length history"
      and low: "\<forall>i<k. (\<exists>x\<le>0. history ! (length history - 1 - i) = Finite x)
                   \<or> history ! (length history - 1 - i) = NegInf" for k
  proof (rule low_streak_count_ge)
    show "REQUIRED_LOW_STREAK \<le> length history"
      using len by (simp add: REQUIRED_LOW_STREAK_def)
    show "k \<le> REQUIRED_LOW_STREAK"
      using k by (simp add: REQUIRED_LOW_STREAK_def)
    show "float_lt (history ! (length history - 1 - i)) LOW_MULTIPLIER_THRESHOLD"
      if "i < k" for i
      using low that neg by blast
  qed
  have all: "generate_risk_averse_signal history = (signal_message 7, True)"
    if len: "20 \<le> length history"
      and low: "\<forall>i<20. (\<exists>x\<le>0. history ! (length history - 1 - i) = Finite x)
                   \<or> history ! (length history - 1 - i) = NegInf"
  proof -
    have len20: "SAFE_HIGH_STREAK \<le> length history"
      using len by (simp add: SAFE_HIGH_STREAK_def)
    have len7: "REQUIRED_LOW_STREAK \<le> length history"
      using len by (simp add: REQUIRED_LOW_STREAK_def)
    have "\<forall>i<7. (\<exists>x\<le>0. history ! (length history - 1 - i) = Finite x)
                   \<or> history ! (length history - 1 - i) = NegInf"
      using low by auto
    then have "7 \<le> low_streak_count history"
      using count[of 7] len by blast
    then have c: "low_streak_count history = 7"
      using low_streak_count_le[OF len7] by (simp add: REQUIRED_LOW_STREAK_def)
    have "\<not> float_ge (history ! (length history - 1 - i)) HIGH_MULTIPLIER_THRESHOLD"
      if "i < SAFE_HIGH_STREAK" for i
      using low that neg unfolding SAFE_HIGH_STREAK_def by blast
    then have "\<not> high_hit_recently history"
      unfolding high_hit_recently_nth[OF len20] by blast
    then show ?thesis
      using c by (simp add: generate_long[OF len20] is_low_streak_ready_def REQUIRED_LOW_STREAK_def)
  qed
  from shape fin count all show ?thesis by blast
qed

text \<open>
  The claim at a history of 20 entries that are zero, negative or minus infinity: it gets
  the signal.
\<close>

theorem C10_total_no_validation_witness:
  "20 \<le> length history_not_positive
   \<and> list_all (\<lambda>m. (\<exists>x\<le>0. m = Finite x) \<or> m = NegInf) history_not_positive
   \<and> generate_risk_averse_signal history_not_positive = (signal_message 7, True)
   \<and> 7 \<le> low_streak_count history_not_positive"
proof -
  let ?P = "\<lambda>m. (\<exists>x\<le>0. m = Finite x) \<or> m = NegInf"
  have len: "length history_not_positive = 20"
    by (simp add: history_not_positive_def)
  then have l: "20 \<le> length history_not_positive"
    by simp
  have a: "list_all ?P history_not_positive"
    by (simp add: history_not_positive_def)
  have p: "\<forall>i<20. ?P (history_not_positive ! (length history_not_positive - 1 - i))"
  proof (intro allI impI)
    fix i :: nat
    assume "i < 20"
    have "length history_not_positive - 1 - i < length history_not_positive"
      using len by arith
    with a show "?P (history_not_positive ! (length history_not_positive - 1 - i))"
      unfolding list_all_length by blast
  qed
  then have q: "\<forall>i<7. ?P (history_not_positive ! (length history_not_positive - 1 - i))"
    by auto
  have "(7::nat) \<le> 7" by simp
  with C10_total_no_validation[of history_not_positive] l p q
  have "generate_risk_averse_signal history_not_positive = (signal_message 7, True)"
    and "7 \<le> low_streak_count history_not_positive"
    by blast+
  with l a show ?thesis by blast
qed

end
